theory Spec2Isabelle
  imports Main
begin

section \<open>JavaScript values, objects and exceptions\<close>

text \<open>
  The handlers of \<^verbatim>\<open>src/main/main.js\<close> pass driver values through unconverted. The
  primitive values a driver row can hold are modelled by \<open>jsval\<close> (numbers are the
  integer-valued ones; dates, buffers and nested objects are not modelled). An object is
  the list of its own properties in insertion order.
\<close>

datatype jsval = JUndefined | JNull | JBool bool | JNum int | JStr string

type_synonym row = "(string \<times> jsval) list"

text \<open>\<^verbatim>\<open>row.k\<close>: reading a property that the object lacks gives \<^verbatim>\<open>undefined\<close>.\<close>

definition get_prop :: "row \<Rightarrow> string \<Rightarrow> jsval" where
  "get_prop r k = (case map_of r k of None \<Rightarrow> JUndefined | Some v \<Rightarrow> v)"

text \<open>\<^verbatim>\<open>Object.values(row)[0]\<close>\<close>

definition first_value :: "row \<Rightarrow> jsval" where
  "first_value r = (case r of [] \<Rightarrow> JUndefined | kv # _ \<Rightarrow> snd kv)"

text \<open>The truthiness test of \<^verbatim>\<open>if (v)\<close> and \<^verbatim>\<open>!v\<close>.\<close>

fun truthy :: "jsval \<Rightarrow> bool" where
  "truthy JUndefined = False"
| "truthy JNull = False"
| "truthy (JBool b) = b"
| "truthy (JNum n) = (n \<noteq> 0)"
| "truthy (JStr s) = (s \<noteq> [])"

text \<open>\<^verbatim>\<open>Number.prototype.toString\<close> on an integer-valued number: decimal digits.\<close>

fun digits_of :: "nat \<Rightarrow> string" where
  "digits_of n =
     (if n < 10 then [''0123456789'' ! n]
      else digits_of (n div 10) @ [''0123456789'' ! (n mod 10)])"

declare digits_of.simps [simp del]

definition number_toString :: "int \<Rightarrow> string" where
  "number_toString i = (if i < 0 then CHR ''-'' # digits_of (nat (- i)) else digits_of (nat i))"

text \<open>The string conversion of a template literal \<^verbatim>\<open>`${v}`\<close>.\<close>

fun to_string :: "jsval \<Rightarrow> string" where
  "to_string JUndefined = ''undefined''"
| "to_string JNull = ''null''"
| "to_string (JBool b) = (if b then ''true'' else ''false'')"
| "to_string (JNum n) = number_toString n"
| "to_string (JStr s) = s"

text \<open>
  A thrown value is an \<^verbatim>\<open>Error\<close> (raised by the handlers or reported by a driver) or
  the engine's \<^verbatim>\<open>TypeError\<close>; the handlers only ever read its \<^verbatim>\<open>message\<close>.
\<close>

datatype exn = Error string | TypeError string

fun message :: "exn \<Rightarrow> string" where
  "message (Error m) = m"
| "message (TypeError m) = m"

text \<open>
  The engine's messages for destructuring \<^verbatim>\<open>undefined\<close> and for reading a property
  of \<^verbatim>\<open>undefined\<close> (V8's wording).
\<close>

definition destructure_undefined_message :: string where
  "destructure_undefined_message =
     ''Cannot destructure property 'connection' of 'dbConnections[connectionId]' as it is undefined.''"

definition read_db_of_undefined_message :: string where
  "read_db_of_undefined_message = ''Cannot read properties of undefined (reading 'db')''"

text \<open>What every handler returns: \<^verbatim>\<open>{ success: true, ... }\<close> or
  \<^verbatim>\<open>{ success: false, error }\<close>.\<close>

datatype 'a response = Success 'a | Failure string

section \<open>The connection registry \<^verbatim>\<open>dbConnections\<close>\<close>

text \<open>
  A native connection is a reference to a driver object (an object, so always truthy in
  the \<^verbatim>\<open>if (!connection)\<close> tests). An entry is \<^verbatim>\<open>{ connection, dbType }\<close>;
  \<^verbatim>\<open>connect-database\<close> stores an entry only for the three types its \<^verbatim>\<open>switch\<close>
  accepts, so \<open>dbType\<close> is a three-valued datatype and the \<^verbatim>\<open>switch\<close> statements of
  the other handlers have no further case.
\<close>

type_synonym conn = nat

datatype db_type = Mysql | Postgresql | Sqlite

record entry =
  connection :: conn
  dbType :: db_type

type_synonym registry = "string \<rightharpoonup> entry"

text \<open>
  \<^verbatim>\<open>dbConnections\<close> is a plain object literal, so \<^verbatim>\<open>dbConnections[connectionId]\<close> on a
  key that is not an own property falls through to \<^verbatim>\<open>Object.prototype\<close>: for the names
  below the read gives a function or object that has no \<^verbatim>\<open>connection\<close> property, for
  every other absent key it gives \<^verbatim>\<open>undefined\<close>.
\<close>

definition object_prototype_keys :: "string list" where
  "object_prototype_keys =
     [''constructor'', ''__defineGetter__'', ''__defineSetter__'', ''hasOwnProperty'',
      ''__lookupGetter__'', ''__lookupSetter__'', ''isPrototypeOf'', ''propertyIsEnumerable'',
      ''toString'', ''valueOf'', ''__proto__'', ''toLocaleString'']"

datatype lookup = NoValue | ProtoValue | Own entry

definition js_get :: "registry \<Rightarrow> string \<Rightarrow> lookup" where
  "js_get reg connectionId =
     (case reg connectionId of
        Some e \<Rightarrow> Own e
      | None \<Rightarrow> if connectionId \<in> set object_prototype_keys then ProtoValue else NoValue)"

section \<open>The environment: drivers, clock and store\<close>

text \<open>
  The handlers call into \<^verbatim>\<open>mysql2/promise\<close>, \<^verbatim>\<open>pg\<close>, \<^verbatim>\<open>sqlite3\<close>, the
  credential store and the clock. These are parameters of the model: each call takes the
  state \<open>'w\<close> of the outside world and returns the new one, with a rejected promise, an
  error passed to a callback or a thrown exception as \<open>Inl\<close>.
  \<^verbatim>\<open>Store.set\<close> catches its own write errors (\<^verbatim>\<open>store.js\<close>), so it cannot fail.
  \<^verbatim>\<open>parseInt\<close> and the options a pool object carries are taken as the runtime gives
  them. A handler that receives a parameter object, such as
  \<^verbatim>\<open>{ connectionId, database }\<close>, is modelled on the fields of that object.
\<close>

record connection_info =
  ci_dbType :: string
  ci_host :: string
  ci_port :: string
  ci_username :: string
  ci_password :: string
  ci_rememberCredentials :: bool

record conn_config =
  cfg_host :: string
  cfg_port :: jsval
  cfg_user :: string
  cfg_password :: string
  cfg_database :: "string option"

type_synonym ('w, 'a) io = "'w \<Rightarrow> (exn + 'a) \<times> 'w"

record 'w env =
  store_set :: "connection_info \<Rightarrow> 'w \<Rightarrow> 'w"
  parseInt :: "string \<Rightarrow> jsval"
  date_now :: "'w \<Rightarrow> int"
  mysql_createConnection :: "conn_config \<Rightarrow> ('w, conn) io"
  pg_Pool :: "conn_config \<Rightarrow> ('w, conn) io"
  pool_options :: "conn \<Rightarrow> 'w \<Rightarrow> conn_config"
  sqlite3_Database :: "string \<Rightarrow> ('w, conn) io"
  mysql_query :: "conn \<Rightarrow> string \<Rightarrow> ('w, row list) io"
  pg_query :: "conn \<Rightarrow> string \<Rightarrow> jsval list \<Rightarrow> ('w, row list) io"
  sqlite_all :: "conn \<Rightarrow> string \<Rightarrow> ('w, row list) io"
  conn_end :: "conn \<Rightarrow> ('w, unit) io"
  sqlite_close :: "conn \<Rightarrow> ('w, unit) io"

text \<open>
  Sequencing inside an \<^verbatim>\<open>async\<close> function: \<open>await m k\<close> runs \<open>m\<close> and, unless it
  throws, continues with \<open>k\<close> on its value. Each handler is run to completion; the
  interleaving of two handlers at their \<^verbatim>\<open>await\<close> points is not modelled.
\<close>

definition resolve :: "'a \<Rightarrow> ('w, 'a) io" where
  "resolve x w = (Inr x, w)"

definition throw :: "exn \<Rightarrow> ('w, 'a) io" where
  "throw e w = (Inl e, w)"

definition await :: "('w, 'a) io \<Rightarrow> ('a \<Rightarrow> ('w, 'b) io) \<Rightarrow> ('w, 'b) io" where
  "await m k w = (case m w of (Inl e, w') \<Rightarrow> (Inl e, w') | (Inr x, w') \<Rightarrow> k x w')"

text \<open>\<^verbatim>\<open>for (const x of xs) { body }\<close> over an accumulator; a throw in the body leaves the loop.\<close>

fun for_of :: "'a list \<Rightarrow> ('a \<Rightarrow> 's \<Rightarrow> ('w, 's) io) \<Rightarrow> 's \<Rightarrow> ('w, 's) io" where
  "for_of [] body s w = (Inr s, w)"
| "for_of (x # xs) body s w =
     (case body x s w of (Inl e, w') \<Rightarrow> (Inl e, w') | (Inr s', w') \<Rightarrow> for_of xs body s' w')"

text \<open>\<^verbatim>\<open>try { ... return { success: true, ... } } catch (error) { return { success: false,
  error: error.message } }\<close>\<close>

definition catch_response :: "(exn + 'a) \<times> 'w \<Rightarrow> 'a response \<times> 'w" where
  "catch_response r =
     (case r of (Inl e, w) \<Rightarrow> (Failure (message e), w) | (Inr x, w) \<Rightarrow> (Success x, w))"

text \<open>
  The two lines every handler but \<^verbatim>\<open>connect-database\<close> and \<^verbatim>\<open>close-connection\<close> opens with:
  \<^verbatim>\<open>const { connection, dbType } = dbConnections[connectionId];
  if (!connection) { throw new Error('Database connection not found'); }\<close>
  Destructuring \<^verbatim>\<open>undefined\<close> throws a \<^verbatim>\<open>TypeError\<close> before the test is reached.
\<close>

definition with_connection :: "registry \<Rightarrow> string \<Rightarrow> (entry \<Rightarrow> ('w, 'a) io) \<Rightarrow> ('w, 'a) io" where
  "with_connection reg connectionId body w =
     (case js_get reg connectionId of
        NoValue \<Rightarrow> throw (TypeError destructure_undefined_message) w
      | ProtoValue \<Rightarrow> throw (Error ''Database connection not found'') w
      | Own e \<Rightarrow> body e w)"

section \<open>The handlers\<close>

subsection \<open>\<^verbatim>\<open>connect-database\<close>\<close>

definition connect_database ::
  "'w env \<Rightarrow> connection_info \<Rightarrow> registry \<Rightarrow> 'w \<Rightarrow> string response \<times> registry \<times> 'w" where
  "connect_database E connectionInfo reg w =
     (let w0 = (if ci_rememberCredentials connectionInfo then store_set E connectionInfo w else w);
          config = \<lparr>cfg_host = ci_host connectionInfo,
                    cfg_port = parseInt E (ci_port connectionInfo),
                    cfg_user = ci_username connectionInfo,
                    cfg_password = ci_password connectionInfo,
                    cfg_database = None\<rparr>;
          opened =
            (if ci_dbType connectionInfo = ''mysql'' then
               await (mysql_createConnection E config) (\<lambda>c. resolve (c, Mysql)) w0
             else if ci_dbType connectionInfo = ''postgresql'' then
               await (pg_Pool E config) (\<lambda>c. resolve (c, Postgresql)) w0
             else if ci_dbType connectionInfo = ''sqlite'' then
               await (sqlite3_Database E (ci_host connectionInfo)) (\<lambda>c. resolve (c, Sqlite)) w0
             else throw (Error (''Unsupported database type: '' @ ci_dbType connectionInfo)) w0)
      in case opened of
           (Inl e, w1) \<Rightarrow> (Failure (message e), reg, w1)
         | (Inr (c, t), w1) \<Rightarrow>
             (let connectionId = number_toString (date_now E w1)
              in (Success connectionId,
                  reg(connectionId \<mapsto> \<lparr>connection = c, dbType = t\<rparr>), w1)))"

subsection \<open>\<^verbatim>\<open>list-databases\<close>\<close>

definition list_databases ::
  "'w env \<Rightarrow> registry \<Rightarrow> string \<Rightarrow> 'w \<Rightarrow> jsval list response \<times> 'w" where
  "list_databases E reg connectionId w =
     catch_response (with_connection reg connectionId (\<lambda>e.
       case dbType e of
         Mysql \<Rightarrow>
           await (mysql_query E (connection e) ''SHOW DATABASES'')
             (\<lambda>rows. resolve (map (\<lambda>row. get_prop row ''Database'') rows))
       | Postgresql \<Rightarrow>
           await (pg_query E (connection e)
                    ''SELECT datname FROM pg_database WHERE datistemplate = false'' [])
             (\<lambda>rows. resolve (map (\<lambda>row. get_prop row ''datname'') rows))
       | Sqlite \<Rightarrow> resolve [JStr ''main'']) w)"

subsection \<open>\<^verbatim>\<open>use-database\<close>\<close>

text \<open>
  The PostgreSQL branch: \<^verbatim>\<open>new Pool({ ...connection.options, database })\<close>, then
  \<^verbatim>\<open>await connection.end()\<close>, then the assignment to the entry.
\<close>

definition use_database ::
  "'w env \<Rightarrow> string \<Rightarrow> string \<Rightarrow> registry \<Rightarrow> 'w \<Rightarrow> unit response \<times> registry \<times> 'w" where
  "use_database E connectionId database reg w =
     (case with_connection reg connectionId (\<lambda>e.
             case dbType e of
               Mysql \<Rightarrow>
                 await (mysql_query E (connection e) (''USE `'' @ database @ ''`''))
                   (\<lambda>_. resolve reg)
             | Postgresql \<Rightarrow>
                 await (\<lambda>w1. pg_Pool E ((pool_options E (connection e) w1)
                                          \<lparr>cfg_database := Some database\<rparr>) w1)
                   (\<lambda>newConnection.
                      await (conn_end E (connection e))
                        (\<lambda>_. resolve (reg(connectionId \<mapsto> e\<lparr>connection := newConnection\<rparr>))))
             | Sqlite \<Rightarrow> resolve reg) w of
        (Inl err, w') \<Rightarrow> (Failure (message err), reg, w')
      | (Inr reg', w') \<Rightarrow> (Success (), reg', w'))"

subsection \<open>\<^verbatim>\<open>list-tables\<close>\<close>

text \<open>The two catalogue queries that end in a quote character (\<open>CHR 0x27\<close>).\<close>

definition pg_list_tables_sql :: string where
  "pg_list_tables_sql =
     ''SELECT table_name FROM information_schema.tables WHERE table_schema = 'public'' @ [CHR 0x27]"

definition sqlite_list_tables_sql :: string where
  "sqlite_list_tables_sql =
     ''SELECT name FROM sqlite_master WHERE type='table' AND name NOT LIKE 'sqlite_%'' @ [CHR 0x27]"

definition list_tables ::
  "'w env \<Rightarrow> registry \<Rightarrow> string \<Rightarrow> 'w \<Rightarrow> jsval list response \<times> 'w" where
  "list_tables E reg connectionId w =
     catch_response (with_connection reg connectionId (\<lambda>e.
       case dbType e of
         Mysql \<Rightarrow>
           await (mysql_query E (connection e) ''SHOW TABLES'')
             (\<lambda>rows. resolve (map first_value rows))
       | Postgresql \<Rightarrow>
           await (pg_query E (connection e)
                    pg_list_tables_sql [])
             (\<lambda>rows. resolve (map (\<lambda>row. get_prop row ''table_name'') rows))
       | Sqlite \<Rightarrow>
           await (sqlite_all E (connection e)
                    sqlite_list_tables_sql)
             (\<lambda>rows. resolve (map (\<lambda>row. get_prop row ''name'') rows))) w)"

subsection \<open>\<^verbatim>\<open>get-table-schema\<close>\<close>

text \<open>The lines of a multi-line template literal, joined by the newline character.\<close>

fun join_lines :: "string list \<Rightarrow> string" where
  "join_lines [] = []"
| "join_lines [l] = l"
| "join_lines (l # m # ls) = l @ CHR 0x0A # join_lines (m # ls)"

definition table_columns_sql :: string where
  "table_columns_sql = join_lines
     [''SELECT column_name, data_type, is_nullable, column_default '',
      ''           FROM information_schema.columns '',
      ''           WHERE table_name = $1 '',
      ''           ORDER BY ordinal_position'']"

definition tableQuery :: string where
  "tableQuery = join_lines
     ['''',
      ''          SELECT '',
      ''            table_name '',
      ''          FROM '',
      ''            information_schema.tables '',
      ''          WHERE '',
      ''            table_schema = 'public' AND '',
      ''            table_type = 'BASE TABLE'' @ [CHR 0x27],
      ''        '']"

definition columnQuery :: string where
  "columnQuery = join_lines
     ['''',
      ''            SELECT '',
      ''              column_name, '',
      ''              data_type, '',
      ''              is_nullable, '',
      ''              column_default,'',
      ''              character_maximum_length'',
      ''            FROM '',
      ''              information_schema.columns '',
      ''            WHERE '',
      ''              table_schema = 'public' AND '',
      ''              table_name = $1'',
      ''            ORDER BY '',
      ''              ordinal_position'',
      ''          '']"

definition pkQuery :: string where
  "pkQuery = join_lines
     ['''',
      ''            SELECT '',
      ''              kcu.column_name '',
      ''            FROM '',
      ''              information_schema.table_constraints tc'',
      ''              JOIN information_schema.key_column_usage kcu'',
      ''                ON tc.constraint_name = kcu.constraint_name'',
      ''            WHERE '',
      ''              tc.constraint_type = 'PRIMARY KEY' AND'',
      ''              tc.table_schema = 'public' AND'',
      ''              tc.table_name = $1'',
      ''          '']"

text \<open>The column objects each branch builds, one per catalogue row, in the order of the rows.\<close>

definition mysql_column :: "row \<Rightarrow> row" where
  "mysql_column row =
     [(''name'', get_prop row ''Field''),
      (''type'', get_prop row ''Type''),
      (''nullable'', JBool (get_prop row ''Null'' = JStr ''YES'')),
      (''key'', get_prop row ''Key''),
      (''default'', get_prop row ''Default''),
      (''extra'', get_prop row ''Extra'')]"

definition pg_column :: "row \<Rightarrow> row" where
  "pg_column row =
     [(''name'', get_prop row ''column_name''),
      (''type'', get_prop row ''data_type''),
      (''nullable'', JBool (get_prop row ''is_nullable'' = JStr ''YES'')),
      (''default'', get_prop row ''column_default'')]"

definition sqlite_column :: "row \<Rightarrow> row" where
  "sqlite_column row =
     [(''name'', get_prop row ''name''),
      (''type'', get_prop row ''type''),
      (''nullable'', JBool (get_prop row ''notnull'' = JNum 0)),
      (''default'', get_prop row ''dflt_value''),
      (''pk'', JBool (get_prop row ''pk'' = JNum 1))]"

definition get_table_schema ::
  "'w env \<Rightarrow> registry \<Rightarrow> string \<Rightarrow> string \<Rightarrow> 'w \<Rightarrow> row list response \<times> 'w" where
  "get_table_schema E reg connectionId table w =
     catch_response (with_connection reg connectionId (\<lambda>e.
       case dbType e of
         Mysql \<Rightarrow>
           await (mysql_query E (connection e) (''DESCRIBE `'' @ table @ ''`''))
             (\<lambda>rows. resolve (map mysql_column rows))
       | Postgresql \<Rightarrow>
           await (pg_query E (connection e) table_columns_sql [JStr table])
             (\<lambda>rows. resolve (map pg_column rows))
       | Sqlite \<Rightarrow>
           await (sqlite_all E (connection e) (''PRAGMA table_info('' @ table @ '')''))
             (\<lambda>rows. resolve (map sqlite_column rows))) w)"

text \<open>
  How the renderer (\<^verbatim>\<open>renderer.js\<close>, \<^verbatim>\<open>column.key === 'PRI' || column.pk\<close>) reads the
  primary key off a column object.
\<close>

definition is_primary_key :: "row \<Rightarrow> bool" where
  "is_primary_key column = (get_prop column ''key'' = JStr ''PRI'' \<or> truthy (get_prop column ''pk''))"

subsection \<open>\<^verbatim>\<open>execute-query\<close>\<close>

definition execute_query ::
  "'w env \<Rightarrow> registry \<Rightarrow> string \<Rightarrow> string \<Rightarrow> 'w \<Rightarrow> row list response \<times> 'w" where
  "execute_query E reg connectionId query w =
     catch_response (with_connection reg connectionId (\<lambda>e.
       case dbType e of
         Mysql \<Rightarrow> await (mysql_query E (connection e) query) resolve
       | Postgresql \<Rightarrow> await (pg_query E (connection e) query []) resolve
       | Sqlite \<Rightarrow> await (sqlite_all E (connection e) query) resolve) w)"

subsection \<open>\<^verbatim>\<open>get-database-schema\<close>\<close>

definition mysql_column_line :: "row \<Rightarrow> string" where
  "mysql_column_line col =
     ''  - '' @ to_string (get_prop col ''Field'') @ '' ('' @ to_string (get_prop col ''Type'') @ '')''
     @ (if get_prop col ''Key'' = JStr ''PRI'' then '' PRIMARY KEY'' else [])
     @ (if get_prop col ''Key'' = JStr ''UNI'' then '' UNIQUE'' else [])
     @ (if get_prop col ''Key'' = JStr ''MUL'' then '' INDEX'' else [])
     @ (if get_prop col ''Extra'' = JStr ''auto_increment'' then '' AUTO_INCREMENT'' else [])
     @ (if get_prop col ''Null'' = JStr ''NO'' then '' NOT NULL'' else [])
     @ (if get_prop col ''Default'' \<noteq> JNull
        then '' DEFAULT '' @ to_string (get_prop col ''Default'') else [])
     @ [CHR 0x0A]"

definition pg_column_line :: "jsval list \<Rightarrow> row \<Rightarrow> string" where
  "pg_column_line primaryKeys col =
     (let dataType =
            to_string (get_prop col ''data_type'')
            @ (if truthy (get_prop col ''character_maximum_length'')
               then ''('' @ to_string (get_prop col ''character_maximum_length'') @ '')'' else [])
      in ''  - '' @ to_string (get_prop col ''column_name'') @ '' ('' @ dataType @ '')''
         @ (if get_prop col ''column_name'' \<in> set primaryKeys then '' PRIMARY KEY'' else [])
         @ (if get_prop col ''is_nullable'' = JStr ''NO'' then '' NOT NULL'' else [])
         @ (if get_prop col ''column_default'' \<noteq> JNull
            then '' DEFAULT '' @ to_string (get_prop col ''column_default'') else [])
         @ [CHR 0x0A])"

definition sqlite_column_line :: "row \<Rightarrow> string" where
  "sqlite_column_line col =
     ''  - '' @ to_string (get_prop col ''name'') @ '' ('' @ to_string (get_prop col ''type'') @ '')''
     @ (if get_prop col ''pk'' = JNum 1 then '' PRIMARY KEY'' else [])
     @ (if get_prop col ''notnull'' = JNum 1 then '' NOT NULL'' else [])
     @ (if get_prop col ''dflt_value'' \<noteq> JNull
        then '' DEFAULT '' @ to_string (get_prop col ''dflt_value'') else [])
     @ [CHR 0x0A]"

text \<open>\<^verbatim>\<open>Table: ${table}\n\<close>, \<^verbatim>\<open>Columns:\n\<close>, the column lines, and the blank line.\<close>

definition table_block :: "jsval \<Rightarrow> string list \<Rightarrow> string" where
  "table_block table column_lines =
     ''Table: '' @ to_string table @ [CHR 0x0A] @ ''Columns:'' @ [CHR 0x0A]
     @ concat column_lines @ [CHR 0x0A]"

text \<open>The bodies of the three \<^verbatim>\<open>for (const table of ...)\<close> loops.\<close>

definition mysql_table_body :: "'w env \<Rightarrow> conn \<Rightarrow> jsval \<Rightarrow> string \<Rightarrow> ('w, string) io" where
  "mysql_table_body E c table schemaInfo =
     await (mysql_query E c (''DESCRIBE `'' @ to_string table @ ''`''))
       (\<lambda>columns. resolve (schemaInfo @ table_block table (map mysql_column_line columns)))"

definition pg_table_body :: "'w env \<Rightarrow> conn \<Rightarrow> jsval \<Rightarrow> string \<Rightarrow> ('w, string) io" where
  "pg_table_body E c table schemaInfo =
     await (pg_query E c columnQuery [table])
       (\<lambda>columnResult.
          await (pg_query E c pkQuery [table])
            (\<lambda>pkResult.
               let primaryKeys = map (\<lambda>row. get_prop row ''column_name'') pkResult
               in resolve (schemaInfo
                    @ table_block table (map (pg_column_line primaryKeys) columnResult))))"

definition sqlite_table_body :: "'w env \<Rightarrow> conn \<Rightarrow> jsval \<Rightarrow> string \<Rightarrow> ('w, string) io" where
  "sqlite_table_body E c table schemaInfo =
     await (sqlite_all E c (''PRAGMA table_info('' @ to_string table @ '')''))
       (\<lambda>tableInfo. resolve (schemaInfo @ table_block table (map sqlite_column_line tableInfo)))"

text \<open>
  The part of each branch that runs before its loop: the table names it will walk
  (after the current-database query of the two server branches).
\<close>

definition schema_tables :: "'w env \<Rightarrow> entry \<Rightarrow> ('w, jsval list) io" where
  "schema_tables E e =
     (case dbType e of
        Mysql \<Rightarrow>
          await (mysql_query E (connection e) ''SELECT DATABASE() as db'')
            (\<lambda>dbRows.
               case dbRows of
                 [] \<Rightarrow> throw (TypeError read_db_of_undefined_message)
               | r # _ \<Rightarrow>
                   if \<not> truthy (get_prop r ''db'') then throw (Error ''No database selected'')
                   else await (mysql_query E (connection e) ''SHOW TABLES'')
                          (\<lambda>tables. resolve (map first_value tables)))
      | Postgresql \<Rightarrow>
          await (pg_query E (connection e) ''SELECT current_database() as db'' [])
            (\<lambda>dbResult.
               case dbResult of
                 [] \<Rightarrow> throw (TypeError read_db_of_undefined_message)
               | r # _ \<Rightarrow>
                   await (pg_query E (connection e) tableQuery [])
                     (\<lambda>tableResult. resolve (map (\<lambda>row. get_prop row ''table_name'') tableResult)))
      | Sqlite \<Rightarrow>
          await (sqlite_all E (connection e) sqlite_list_tables_sql)
            (\<lambda>rows. resolve (map (\<lambda>row. get_prop row ''name'') rows)))"

definition schema_table_body :: "'w env \<Rightarrow> entry \<Rightarrow> jsval \<Rightarrow> string \<Rightarrow> ('w, string) io" where
  "schema_table_body E e =
     (case dbType e of
        Mysql \<Rightarrow> mysql_table_body E (connection e)
      | Postgresql \<Rightarrow> pg_table_body E (connection e)
      | Sqlite \<Rightarrow> sqlite_table_body E (connection e))"

text \<open>
  The handler; its \<^verbatim>\<open>catch\<close> reports
  \<^verbatim>\<open>error.message || 'An error occurred while retrieving the database schema'\<close>.
\<close>

definition get_database_schema ::
  "'w env \<Rightarrow> registry \<Rightarrow> string \<Rightarrow> 'w \<Rightarrow> (string \<times> db_type) response \<times> 'w" where
  "get_database_schema E reg connectionId w =
     (case with_connection reg connectionId (\<lambda>e.
             await (schema_tables E e)
               (\<lambda>tables. await (for_of tables (schema_table_body E e) [])
                  (\<lambda>schemaInfo. resolve (schemaInfo, dbType e)))) w of
        (Inl err, w') \<Rightarrow>
          (Failure (if message err \<noteq> [] then message err
                    else ''An error occurred while retrieving the database schema''), w')
      | (Inr r, w') \<Rightarrow> (Success r, w'))"

subsection \<open>\<^verbatim>\<open>close-connection\<close>\<close>

text \<open>
  Here the test after the destructuring returns \<^verbatim>\<open>{ success: true }\<close>
  (\<^verbatim>\<open>// Already closed or not found\<close>) instead of throwing; the destructuring itself is the
  same as in the other handlers. The entry is deleted after the native close has resolved.
\<close>

text \<open>The \<^verbatim>\<open>switch\<close> of the handler: \<^verbatim>\<open>connection.end()\<close> for the two servers,
  \<^verbatim>\<open>connection.close(callback)\<close> for SQLite.\<close>

definition native_close :: "'w env \<Rightarrow> entry \<Rightarrow> ('w, unit) io" where
  "native_close E e =
     (case dbType e of
        Mysql \<Rightarrow> conn_end E (connection e)
      | Postgresql \<Rightarrow> conn_end E (connection e)
      | Sqlite \<Rightarrow> sqlite_close E (connection e))"

definition close_connection ::
  "'w env \<Rightarrow> string \<Rightarrow> registry \<Rightarrow> 'w \<Rightarrow> unit response \<times> registry \<times> 'w" where
  "close_connection E connectionId reg w =
     (case js_get reg connectionId of
        NoValue \<Rightarrow> (Failure (message (TypeError destructure_undefined_message)), reg, w)
      | ProtoValue \<Rightarrow> (Success (), reg, w)
      | Own e \<Rightarrow>
          (case native_close E e w of
             (Inl err, w') \<Rightarrow> (Failure (message err), reg, w')
           | (Inr _, w') \<Rightarrow> (Success (), reg(connectionId := None), w')))"

section \<open>What the catalogue queries select\<close>

text \<open>
  The filtering of \<^verbatim>\<open>list-tables\<close> is done by the SQL text the handler sends, so the
  meaning of that text is part of what the handler does. The rows of PostgreSQL's
  \<^verbatim>\<open>information_schema.tables\<close> and of SQLite's \<^verbatim>\<open>sqlite_master\<close>, and the rows each
  \<^verbatim>\<open>WHERE\<close> clause keeps:
\<close>

record pg_table =
  table_schema :: string
  table_name :: string
  table_type :: string

text \<open>\<^verbatim>\<open>SELECT table_name FROM information_schema.tables WHERE table_schema = 'public'\<close>
  (\<^verbatim>\<open>list-tables\<close>)\<close>

definition pg_list_tables_rows :: "pg_table list \<Rightarrow> row list" where
  "pg_list_tables_rows cat =
     map (\<lambda>t. [(''table_name'', JStr (table_name t))])
       (filter (\<lambda>t. table_schema t = ''public'') cat)"

text \<open>\<^verbatim>\<open>... WHERE table_schema = 'public' AND table_type = 'BASE TABLE'\<close>
  (\<^verbatim>\<open>tableQuery\<close> of \<^verbatim>\<open>get-database-schema\<close>)\<close>

definition pg_tableQuery_rows :: "pg_table list \<Rightarrow> row list" where
  "pg_tableQuery_rows cat =
     map (\<lambda>t. [(''table_name'', JStr (table_name t))])
       (filter (\<lambda>t. table_schema t = ''public'' \<and> table_type t = ''BASE TABLE'') cat)"

text \<open>
  SQL \<^verbatim>\<open>LIKE\<close> as SQLite evaluates it: \<^verbatim>\<open>%\<close> matches any run of characters,
  \<^verbatim>\<open>_\<close> any one character, and letters match without regard to ASCII case.
\<close>

definition ascii_lower :: "char \<Rightarrow> char" where
  "ascii_lower c =
     (if 65 \<le> (of_char c :: nat) \<and> (of_char c :: nat) \<le> 90 then char_of ((of_char c :: nat) + 32) else c)"

fun sql_like :: "string \<Rightarrow> string \<Rightarrow> bool" where
  "sql_like [] s = (s = [])"
| "sql_like (p # ps) [] = (p = CHR ''%'' \<and> sql_like ps [])"
| "sql_like (p # ps) (c # cs) =
     (if p = CHR ''%'' then sql_like ps (c # cs) \<or> sql_like (p # ps) cs
      else (p = CHR ''_'' \<or> ascii_lower p = ascii_lower c) \<and> sql_like ps cs)"

record sqlite_object =
  obj_type :: string
  obj_name :: string

text \<open>\<^verbatim>\<open>SELECT name FROM sqlite_master WHERE type='table' AND name NOT LIKE 'sqlite_%'\<close>\<close>

definition sqlite_list_tables_rows :: "sqlite_object list \<Rightarrow> row list" where
  "sqlite_list_tables_rows master =
     map (\<lambda>x. [(''name'', JStr (obj_name x))])
       (filter (\<lambda>x. obj_type x = ''table'' \<and> \<not> sql_like ''sqlite_%'' (obj_name x)) master)"

section \<open>A scripted environment\<close>

text \<open>
  An environment to run the handlers in: connection objects are numbered as they are
  created and remember their options; like \<^verbatim>\<open>pg\<close>'s \<^verbatim>\<open>Pool\<close>, a constructor opens
  nothing, so it accepts any database name, and a query on a pool whose database does not
  exist on the server is what fails. A connection that was ended rejects every later call.
  Queries are answered from a table of replies keyed by the SQL text. The clock is read,
  never advanced, by the handlers.
\<close>

record sim_world =
  sim_clock :: int
  sim_next :: nat
  sim_options :: "(conn \<times> conn_config) list"
  sim_ended :: "conn list"
  sim_databases :: "string list"
  sim_replies :: "(string \<times> (exn + row list)) list"

definition sim_open :: "conn_config \<Rightarrow> (sim_world, conn) io" where
  "sim_open cfg w =
     (Inr (sim_next w),
      w\<lparr>sim_next := Suc (sim_next w), sim_options := (sim_next w, cfg) # sim_options w\<rparr>)"

definition sim_query :: "conn \<Rightarrow> string \<Rightarrow> (sim_world, row list) io" where
  "sim_query c sql w =
     (if c \<in> set (sim_ended w) then (Inl (Error ''Cannot use a connection after calling end''), w)
      else case map_of (sim_options w) c of
             None \<Rightarrow> (Inl (Error ''not a connection''), w)
           | Some cfg \<Rightarrow>
               (case cfg_database cfg of
                  Some d \<Rightarrow>
                    if d \<notin> set (sim_databases w)
                    then (Inl (Error (''database does not exist: '' @ d)), w)
                    else (case map_of (sim_replies w) sql of
                            None \<Rightarrow> (Inl (Error (''no such table or syntax error: '' @ sql)), w)
                          | Some r \<Rightarrow> (r, w))
                | None \<Rightarrow>
                    (case map_of (sim_replies w) sql of
                       None \<Rightarrow> (Inl (Error (''no such table or syntax error: '' @ sql)), w)
                     | Some r \<Rightarrow> (r, w))))"

definition sim_end :: "conn \<Rightarrow> (sim_world, unit) io" where
  "sim_end c w =
     (if c \<in> set (sim_ended w) then (Inl (Error ''Called end on a connection more than once''), w)
      else (Inr (), w\<lparr>sim_ended := c # sim_ended w\<rparr>))"

definition sim_config :: "conn \<Rightarrow> sim_world \<Rightarrow> conn_config" where
  "sim_config c w =
     (case map_of (sim_options w) c of
        Some cfg \<Rightarrow> cfg
      | None \<Rightarrow> \<lparr>cfg_host = [], cfg_port = JUndefined, cfg_user = [], cfg_password = [],
                  cfg_database = None\<rparr>)"

definition sim_env :: "sim_world env" where
  "sim_env =
     \<lparr>store_set = (\<lambda>_ w. w),
      parseInt = (\<lambda>s. JNum (foldl (\<lambda>a c. 10 * a + (of_char c - 48)) 0 s)),
      date_now = sim_clock,
      mysql_createConnection = sim_open,
      pg_Pool = sim_open,
      pool_options = sim_config,
      sqlite3_Database =
        (\<lambda>path. sim_open \<lparr>cfg_host = path, cfg_port = JUndefined, cfg_user = [],
                            cfg_password = [], cfg_database = None\<rparr>),
      mysql_query = sim_query,
      pg_query = (\<lambda>c sql params. sim_query c sql),
      sqlite_all = sim_query,
      conn_end = sim_end,
      sqlite_close = sim_end\<rparr>"

section \<open>A fixture: one server of each kind\<close>

text \<open>
  Three open connections, numbered 0 (MySQL), 1 (PostgreSQL) and 2 (SQLite), the registry
  that holds them, and the catalogue rows the servers answer with for a table
  \<^verbatim>\<open>users(id PRIMARY KEY, name)\<close>. The PostgreSQL database also has a view
  \<^verbatim>\<open>active_users\<close> in its public schema; the SQLite file also has a table \<^verbatim>\<open>orders\<close>
  whose \<^verbatim>\<open>PRAGMA\<close> is answered with an error.
\<close>

definition server_config :: conn_config where
  "server_config = \<lparr>cfg_host = ''localhost'', cfg_port = JNum 5432, cfg_user = ''app'',
                     cfg_password = ''secret'', cfg_database = None\<rparr>"

definition file_config :: conn_config where
  "file_config = \<lparr>cfg_host = ''./fixture.db'', cfg_port = JUndefined, cfg_user = [],
                   cfg_password = [], cfg_database = None\<rparr>"

definition mysql_users_columns :: "row list" where
  "mysql_users_columns =
     [[(''Field'', JStr ''id''), (''Type'', JStr ''int''), (''Null'', JStr ''NO''),
       (''Key'', JStr ''PRI''), (''Default'', JNull), (''Extra'', JStr ''auto_increment'')],
      [(''Field'', JStr ''name''), (''Type'', JStr ''varchar(255)''), (''Null'', JStr ''YES''),
       (''Key'', JStr []), (''Default'', JNull), (''Extra'', JStr [])]]"

definition pg_catalog :: "pg_table list" where
  "pg_catalog =
     [\<lparr>table_schema = ''public'', table_name = ''users'', table_type = ''BASE TABLE''\<rparr>,
      \<lparr>table_schema = ''public'', table_name = ''active_users'', table_type = ''VIEW''\<rparr>,
      \<lparr>table_schema = ''pg_catalog'', table_name = ''pg_class'', table_type = ''BASE TABLE''\<rparr>]"

definition pg_users_columns :: "row list" where
  "pg_users_columns =
     [[(''column_name'', JStr ''id''), (''data_type'', JStr ''integer''),
       (''is_nullable'', JStr ''NO''), (''column_default'', JNull)],
      [(''column_name'', JStr ''name''), (''data_type'', JStr ''text''),
       (''is_nullable'', JStr ''YES''), (''column_default'', JNull)]]"

definition sqlite_master :: "sqlite_object list" where
  "sqlite_master =
     [\<lparr>obj_type = ''table'', obj_name = ''users''\<rparr>,
      \<lparr>obj_type = ''table'', obj_name = ''sqlite_sequence''\<rparr>,
      \<lparr>obj_type = ''table'', obj_name = ''orders''\<rparr>,
      \<lparr>obj_type = ''view'', obj_name = ''recent_orders''\<rparr>]"

definition sqlite_users_columns :: "row list" where
  "sqlite_users_columns =
     [[(''cid'', JNum 0), (''name'', JStr ''id''), (''type'', JStr ''INTEGER''),
       (''notnull'', JNum 1), (''dflt_value'', JNull), (''pk'', JNum 1)],
      [(''cid'', JNum 1), (''name'', JStr ''name''), (''type'', JStr ''TEXT''),
       (''notnull'', JNum 0), (''dflt_value'', JNull), (''pk'', JNum 0)]]"

definition fixture_world :: sim_world where
  "fixture_world =
     \<lparr>sim_clock = 1700000000000,
      sim_next = 3,
      sim_options = [(0, server_config), (1, server_config), (2, file_config)],
      sim_ended = [],
      sim_databases = [''postgres'', ''shop''],
      sim_replies =
        [(''SELECT 1 AS one'', Inr [[(''one'', JNum 1)]]),
         (''DESCRIBE `users`'', Inr mysql_users_columns),
         (pg_list_tables_sql, Inr (pg_list_tables_rows pg_catalog)),
         (table_columns_sql, Inr pg_users_columns),
         (sqlite_list_tables_sql, Inr (sqlite_list_tables_rows sqlite_master)),
         (''PRAGMA table_info(users)'', Inr sqlite_users_columns),
         (''PRAGMA table_info(orders)'', Inl (Error ''SQLITE_BUSY: database is locked''))]\<rparr>"

definition fixture_registry :: registry where
  "fixture_registry =
     [''1699999999001'' \<mapsto> \<lparr>connection = 0, dbType = Mysql\<rparr>,
      ''1699999999002'' \<mapsto> \<lparr>connection = 1, dbType = Postgresql\<rparr>,
      ''1699999999003'' \<mapsto> \<lparr>connection = 2, dbType = Sqlite\<rparr>]"

definition fixture_info :: connection_info where
  "fixture_info =
     \<lparr>ci_dbType = ''sqlite'', ci_host = ''./fixture.db'', ci_port = [], ci_username = [],
      ci_password = [], ci_rememberCredentials = False\<rparr>"

text \<open>The runs the theorems below look at.\<close>

definition switched :: "unit response \<times> registry \<times> sim_world" where
  "switched = use_database sim_env ''1699999999002'' ''nosuchdb'' fixture_registry fixture_world"

definition opened_once :: "string response \<times> registry \<times> sim_world" where
  "opened_once = connect_database sim_env fixture_info fixture_registry fixture_world"

definition opened_twice :: "string response \<times> registry \<times> sim_world" where
  "opened_twice =
     connect_database sim_env fixture_info (fst (snd opened_once)) (snd (snd opened_once))"

section \<open>Basic facts about the registry lookup and the sequencing\<close>

lemmas handler_defs =
  with_connection_def js_get_def catch_response_def await_def resolve_def throw_def
  object_prototype_keys_def

lemmas sim_defs =
  sim_env_def sim_open_def sim_query_def sim_end_def sim_config_def
  fixture_world_def fixture_registry_def server_config_def file_config_def

lemma js_get_Some: "reg k = Some e \<Longrightarrow> js_get reg k = Own e"
  by (simp add: js_get_def)

lemma js_get_None:
  "reg k = None \<Longrightarrow>
   js_get reg k = (if k \<in> set object_prototype_keys then ProtoValue else NoValue)"
  by (simp add: js_get_def)

lemma with_connection_Some: "reg k = Some e \<Longrightarrow> with_connection reg k body w = body e w"
  by (simp add: with_connection_def js_get_Some)

lemma with_connection_None:
  "reg k = None \<Longrightarrow>
   with_connection reg k body w =
     (Inl (if k \<in> set object_prototype_keys then Error ''Database connection not found''
           else TypeError destructure_undefined_message), w)"
  by (simp add: with_connection_def js_get_None throw_def)

lemma number_id_not_inherited: "''1700000000000'' \<notin> set object_prototype_keys"
  by (simp add: object_prototype_keys_def)

text \<open>A loop over \<open>xs @ ys\<close> is the loop over \<open>xs\<close> followed, unless it threw, by the loop
  over \<open>ys\<close>; so the first body that throws ends the whole loop with its exception.\<close>

lemma for_of_append:
  "for_of (xs @ ys) body s w =
     (case for_of xs body s w of
        (Inl e, w') \<Rightarrow> (Inl e, w')
      | (Inr s', w') \<Rightarrow> for_of ys body s' w')"
  by (induction xs arbitrary: s w) (auto split: prod.splits sum.splits)

lemma for_of_first_failure:
  assumes "for_of before body s w = (Inr s1, w1)" and "body t s1 w1 = (Inl err, w2)"
  shows "for_of (before @ t # after) body s w = (Inl err, w2)"
  using assms by (simp add: for_of_append)

section \<open>Switching the database on PostgreSQL\<close>

text \<open>
  Claim C1, as the code has it. For a PostgreSQL entry, \<open>use_database\<close> first constructs
  the new pool from the old pool's options with \<open>database\<close> set to the requested name, then
  ends the old pool, then installs the new pool in the entry:
  \<^item> if the constructor throws, the failure is reported, the registry is unchanged and the
    old pool has not been ended (the world is the one the constructor left);
  \<^item> if ending the old pool fails, the failure is reported and the registry is unchanged;
  \<^item> otherwise the new pool is installed. Nothing is asked of the new pool before the old
    one is ended, so whether the name is that of an existing database plays no part.
\<close>

theorem use_database_postgresql_order:
  assumes "reg connectionId = Some e" and "dbType e = Postgresql"
  shows "(\<forall>err w1.
            pg_Pool E ((pool_options E (connection e) w)\<lparr>cfg_database := Some database\<rparr>) w
              = (Inl err, w1)
            \<longrightarrow> use_database E connectionId database reg w = (Failure (message err), reg, w1))
       \<and> (\<forall>newConnection w1 err w2.
            pg_Pool E ((pool_options E (connection e) w)\<lparr>cfg_database := Some database\<rparr>) w
              = (Inr newConnection, w1)
            \<and> conn_end E (connection e) w1 = (Inl err, w2)
            \<longrightarrow> use_database E connectionId database reg w = (Failure (message err), reg, w2))
       \<and> (\<forall>newConnection w1 w2.
            pg_Pool E ((pool_options E (connection e) w)\<lparr>cfg_database := Some database\<rparr>) w
              = (Inr newConnection, w1)
            \<and> conn_end E (connection e) w1 = (Inr (), w2)
            \<longrightarrow> use_database E connectionId database reg w
                  = (Success (), reg(connectionId \<mapsto> e\<lparr>connection := newConnection\<rparr>), w2))"
  using assms
  by (simp add: use_database_def with_connection_Some await_def resolve_def)

text \<open>On the fixture, switching the PostgreSQL connection to the existing database
  \<^verbatim>\<open>shop\<close>: the third case applies, and pool 3 replaces pool 1.\<close>

theorem use_database_postgresql_order_witness:
  "fixture_registry ''1699999999002'' = Some \<lparr>connection = 1, dbType = Postgresql\<rparr>
   \<and> dbType \<lparr>connection = 1, dbType = Postgresql\<rparr> = Postgresql
   \<and> fst (pg_Pool sim_env ((pool_options sim_env 1 fixture_world)\<lparr>cfg_database := Some ''shop''\<rparr>)
             fixture_world) = Inr 3
   \<and> fst (use_database sim_env ''1699999999002'' ''shop'' fixture_registry fixture_world)
       = Success ()
   \<and> fst (snd (use_database sim_env ''1699999999002'' ''shop'' fixture_registry fixture_world))
       = fixture_registry(''1699999999002'' \<mapsto> \<lparr>connection = 3, dbType = Postgresql\<rparr>)"
  using use_database_postgresql_order
          [where reg = fixture_registry and connectionId = "''1699999999002''"
             and e = "\<lparr>connection = 1, dbType = Postgresql\<rparr>"
             and E = sim_env and w = fixture_world and database = "''shop''"]
  by (simp add: use_database_def handler_defs sim_defs)

text \<open>
  Claim C1 as stated fails. On the fixture a query on the PostgreSQL connection succeeds;
  switching to \<^verbatim>\<open>nosuchdb\<close>, a database the server does not have, is reported as a
  success, pool 1 has been ended and the entry now holds pool 3; the same query then fails.
\<close>

theorem use_database_invalid_name_counterexample:
  "fst (execute_query sim_env fixture_registry ''1699999999002'' ''SELECT 1 AS one'' fixture_world)
     = Success [[(''one'', JNum 1)]]
   \<and> ''nosuchdb'' \<notin> set (sim_databases fixture_world)
   \<and> fst switched = Success ()
   \<and> fst (snd switched) ''1699999999002'' = Some \<lparr>connection = 3, dbType = Postgresql\<rparr>
   \<and> fst (snd switched) \<noteq> fixture_registry
   \<and> 1 \<in> set (sim_ended (snd (snd switched)))
   \<and> fst (execute_query sim_env (fst (snd switched)) ''1699999999002'' ''SELECT 1 AS one''
            (snd (snd switched)))
     = Failure ''database does not exist: nosuchdb''"
proof -
  have changed: "fst (snd switched) ''1699999999002'' \<noteq> fixture_registry ''1699999999002''"
    by (simp add: switched_def use_database_def handler_defs sim_defs)
  have "fst (snd switched) \<noteq> fixture_registry"
    using changed by auto
  then show ?thesis
    by (simp add: switched_def execute_query_def use_database_def handler_defs sim_defs)
qed

section \<open>Closing a connection\<close>

text \<open>A live entry whose native close resolves: the entry is removed.\<close>

lemma close_connection_live_entry:
  assumes "reg connectionId = Some e" and "native_close E e w = (Inr u, w')"
  shows "close_connection E connectionId reg w = (Success (), reg(connectionId := None), w')"
  using assms by (simp add: close_connection_def js_get_Some)

text \<open>An identifier that only names a property of \<^verbatim>\<open>Object.prototype\<close> reaches the
  \<^verbatim>\<open>if (!connection)\<close> test, and there the close does succeed silently.\<close>

lemma close_connection_inherited_key:
  assumes "reg connectionId = None" and "connectionId \<in> set object_prototype_keys"
  shows "close_connection E connectionId reg w = (Success (), reg, w)"
  using assms by (simp add: close_connection_def js_get_None)

text \<open>
  Claim C2 says that closing an identifier that was never opened, or was already closed,
  succeeds silently. The handler's own comment says the same, but the destructuring of
  \<^verbatim>\<open>dbConnections[connectionId]\<close> throws before the test is reached: for the identifier
  \<^verbatim>\<open>1700000000000\<close>, absent from the registry (never opened, or removed by an earlier
  close), the handler returns a failure carrying the engine's message.
\<close>

theorem close_connection_unknown_id_fails:
  "close_connection E ''1700000000000'' (reg(''1700000000000'' := None)) w =
     (Failure destructure_undefined_message, reg(''1700000000000'' := None), w)"
  by (simp add: close_connection_def js_get_None number_id_not_inherited)

text \<open>Closing the SQLite connection of the fixture twice: the first close succeeds, the
  second one fails.\<close>

lemma close_connection_twice:
  "fst (close_connection sim_env ''1699999999003'' fixture_registry fixture_world) = Success ()
   \<and> fst (close_connection sim_env ''1699999999003''
            (fst (snd (close_connection sim_env ''1699999999003'' fixture_registry fixture_world)))
            (snd (snd (close_connection sim_env ''1699999999003'' fixture_registry fixture_world))))
     = Failure destructure_undefined_message"
  by (simp add: close_connection_def native_close_def handler_defs sim_defs)

text \<open>
  Claim C10. When the native close of a live entry fails, \<open>close_connection\<close> returns a
  failure with the driver's message and the registry is exactly as before, so the
  lookup that opens every other handler still finds the same entry.
\<close>

theorem close_connection_native_failure_keeps_entry:
  assumes "reg connectionId = Some e" and "native_close E e w = (Inl err, w')"
  shows "close_connection E connectionId reg w = (Failure (message err), reg, w')
       \<and> (\<forall>body w2. with_connection (fst (snd (close_connection E connectionId reg w)))
                        connectionId body w2 = body e w2)"
  using assms by (simp add: close_connection_def js_get_Some with_connection_Some)

text \<open>On the fixture with the PostgreSQL pool already ended behind the registry's back,
  ending it again fails, and the entry stays.\<close>

theorem close_connection_native_failure_keeps_entry_witness:
  "fixture_registry ''1699999999002'' = Some \<lparr>connection = 1, dbType = Postgresql\<rparr>
   \<and> native_close sim_env \<lparr>connection = 1, dbType = Postgresql\<rparr> (fixture_world\<lparr>sim_ended := [1]\<rparr>)
       = (Inl (Error ''Called end on a connection more than once''), fixture_world\<lparr>sim_ended := [1]\<rparr>)
   \<and> close_connection sim_env ''1699999999002'' fixture_registry (fixture_world\<lparr>sim_ended := [1]\<rparr>)
       = (Failure ''Called end on a connection more than once'', fixture_registry,
          fixture_world\<lparr>sim_ended := [1]\<rparr>)"
proof -
  have live: "fixture_registry ''1699999999002'' = Some \<lparr>connection = 1, dbType = Postgresql\<rparr>"
    by (simp add: fixture_registry_def)
  have fails: "native_close sim_env \<lparr>connection = 1, dbType = Postgresql\<rparr>
                 (fixture_world\<lparr>sim_ended := [1]\<rparr>)
               = (Inl (Error ''Called end on a connection more than once''),
                  fixture_world\<lparr>sim_ended := [1]\<rparr>)"
    by (simp add: native_close_def sim_env_def sim_end_def)
  have "close_connection sim_env ''1699999999002'' fixture_registry
          (fixture_world\<lparr>sim_ended := [1]\<rparr>)
        = (Failure ''Called end on a connection more than once'', fixture_registry,
           fixture_world\<lparr>sim_ended := [1]\<rparr>)"
    using close_connection_native_failure_keeps_entry
            [where reg = fixture_registry and connectionId = "''1699999999002''",
             OF live fails, THEN conjunct1]
    by simp
  with live fails show ?thesis
    by blast
qed

section \<open>Identifiers without an entry\<close>

text \<open>
  Given an identifier with no entry in the registry, each of \<open>list_databases\<close>,
  \<open>use_database\<close>, \<open>list_tables\<close>, \<open>get_table_schema\<close>, \<open>execute_query\<close> and
  \<open>get_database_schema\<close> returns a failure result, leaves the registry as it was and
  calls no driver (the world is unchanged): the exception is raised and caught inside the
  handler. Which exception it is depends on the identifier.
\<close>

lemma absent_id_reports_failure:
  assumes "reg connectionId = None"
  shows "\<exists>m \<in> {''Database connection not found'', destructure_undefined_message}.
           m \<noteq> []
         \<and> list_databases E reg connectionId w = (Failure m, w)
         \<and> use_database E connectionId database reg w = (Failure m, reg, w)
         \<and> list_tables E reg connectionId w = (Failure m, w)
         \<and> get_table_schema E reg connectionId table w = (Failure m, w)
         \<and> execute_query E reg connectionId query w = (Failure m, w)
         \<and> get_database_schema E reg connectionId w = (Failure m, w)"
  using assms
  by (simp add: list_databases_def use_database_def list_tables_def get_table_schema_def
      execute_query_def get_database_schema_def with_connection_None catch_response_def
      destructure_undefined_message_def)

text \<open>The handlers' own \<^verbatim>\<open>throw new Error('Database connection not found')\<close> is reached
  only by an identifier that names a property of \<^verbatim>\<open>Object.prototype\<close>.\<close>

lemma inherited_key_reports_not_found:
  assumes "reg connectionId = None" and "connectionId \<in> set object_prototype_keys"
  shows "list_databases E reg connectionId w = (Failure ''Database connection not found'', w)
       \<and> execute_query E reg connectionId query w = (Failure ''Database connection not found'', w)"
  using assms
  by (simp add: list_databases_def execute_query_def with_connection_None catch_response_def)

text \<open>
  Claim C4 says that an operation given an identifier without a live entry returns the
  connection-not-found failure. Each of the six handlers throws that error itself
  (\<^verbatim>\<open>Database connection not found\<close>), but only after the destructuring of
  \<^verbatim>\<open>dbConnections[connectionId]\<close>, which throws first: for the identifier
  \<^verbatim>\<open>1700000000000\<close>, absent from the registry, every one of them returns a failure
  whose message is the engine's text for destructuring \<^verbatim>\<open>undefined\<close>, which is not
  the handlers' message. The failure is a returned result in each case, with the registry
  and the world unchanged.
\<close>

theorem absent_id_reports_engine_error:
  "list_databases E (reg(''1700000000000'' := None)) ''1700000000000'' w
     = (Failure destructure_undefined_message, w)
   \<and> use_database E ''1700000000000'' database (reg(''1700000000000'' := None)) w
     = (Failure destructure_undefined_message, reg(''1700000000000'' := None), w)
   \<and> list_tables E (reg(''1700000000000'' := None)) ''1700000000000'' w
     = (Failure destructure_undefined_message, w)
   \<and> get_table_schema E (reg(''1700000000000'' := None)) ''1700000000000'' table w
     = (Failure destructure_undefined_message, w)
   \<and> execute_query E (reg(''1700000000000'' := None)) ''1700000000000'' query w
     = (Failure destructure_undefined_message, w)
   \<and> get_database_schema E (reg(''1700000000000'' := None)) ''1700000000000'' w
     = (Failure destructure_undefined_message, w)
   \<and> destructure_undefined_message \<noteq> ''Database connection not found''"
  by (simp add: list_databases_def use_database_def list_tables_def get_table_schema_def
      execute_query_def get_database_schema_def with_connection_None catch_response_def
      number_id_not_inherited)
     (simp add: destructure_undefined_message_def)

section \<open>Connection identifiers\<close>

text \<open>
  Claim C5 says that two successful opens never produce the same identifier while the
  registry holds an entry for either. The identifier is the clock's millisecond reading,
  so two opens within one millisecond get the same one: on the fixture, opening the SQLite
  file twice at clock reading \<^verbatim>\<open>1700000000000\<close> succeeds twice with the identifier
  \<^verbatim>\<open>1700000000000\<close>; the second open overwrites the entry of the first, whose
  connection 3 is still open and is no longer reachable through the registry.
\<close>

theorem connect_database_same_millisecond:
  "fst opened_once = Success ''1700000000000''
   \<and> fst (snd opened_once) ''1700000000000'' = Some \<lparr>connection = 3, dbType = Sqlite\<rparr>
   \<and> fst opened_twice = Success ''1700000000000''
   \<and> fst (snd opened_twice) ''1700000000000'' = Some \<lparr>connection = 4, dbType = Sqlite\<rparr>
   \<and> 3 \<notin> set (sim_ended (snd (snd opened_twice)))"
  by (simp add: opened_twice_def opened_once_def connect_database_def fixture_info_def
        handler_defs sim_defs number_toString_def digits_of.simps Let_def)

section \<open>Listing tables\<close>

text \<open>What the SQLite query keeps: rows of type \<^verbatim>\<open>table\<close> whose name does not begin
  with \<^verbatim>\<open>sqlite_\<close>.\<close>

lemma sql_like_percent: "sql_like ''%'' s"
  by (induction s) simp_all

lemma sql_like_sqlite_prefix: "sql_like ''sqlite_%'' (''sqlite_'' @ s)"
  by (simp add: sql_like_percent)

lemma sqlite_list_tables_rows_exclude_internal:
  assumes "r \<in> set (sqlite_list_tables_rows master)"
  shows "\<exists>x \<in> set master. r = [(''name'', JStr (obj_name x))] \<and> obj_type x = ''table''
           \<and> (\<forall>s. obj_name x \<noteq> ''sqlite_'' @ s)"
  using assms sql_like_sqlite_prefix by (auto simp: sqlite_list_tables_rows_def)

lemma sqlite_master_rows:
  "sqlite_list_tables_rows sqlite_master = [[(''name'', JStr ''users'')], [(''name'', JStr ''orders'')]]"
  by (simp add: sqlite_list_tables_rows_def sqlite_master_def ascii_lower_def)

lemma list_tables_sqlite_fixture:
  "list_tables sim_env fixture_registry ''1699999999003'' fixture_world
     = (Success [JStr ''users'', JStr ''orders''], fixture_world)"
  by (simp add: list_tables_def handler_defs sim_defs sqlite_master_rows get_prop_def
        pg_list_tables_sql_def sqlite_list_tables_sql_def table_columns_sql_def)

text \<open>What the two PostgreSQL queries keep: \<^verbatim>\<open>list-tables\<close> every public catalogue
  object, \<^verbatim>\<open>tableQuery\<close> of \<^verbatim>\<open>get-database-schema\<close> the base tables among them.\<close>

lemma pg_catalog_rows:
  "pg_list_tables_rows pg_catalog
     = [[(''table_name'', JStr ''users'')], [(''table_name'', JStr ''active_users'')]]"
  by (simp add: pg_list_tables_rows_def pg_catalog_def)

lemma pg_tableQuery_base_tables_only:
  assumes "r \<in> set (pg_tableQuery_rows cat)"
  shows "\<exists>t \<in> set cat. r = [(''table_name'', JStr (table_name t))]
           \<and> table_schema t = ''public'' \<and> table_type t = ''BASE TABLE''"
  using assms by (auto simp: pg_tableQuery_rows_def)

lemma pg_tableQuery_fixture:
  "pg_tableQuery_rows pg_catalog = [[(''table_name'', JStr ''users'')]]"
  by (simp add: pg_tableQuery_rows_def pg_catalog_def)

text \<open>
  Claim C6 says that \<open>list_tables\<close> returns base tables only on all three backends. On
  the fixture's PostgreSQL database, whose public schema has the base table \<^verbatim>\<open>users\<close>
  and the view \<^verbatim>\<open>active_users\<close>, the handler returns both names: its query has no
  \<^verbatim>\<open>table_type = 'BASE TABLE'\<close> condition, which the query of \<^verbatim>\<open>get-database-schema\<close>
  has.
\<close>

theorem list_tables_postgresql_includes_view:
  "\<lparr>table_schema = ''public'', table_name = ''active_users'', table_type = ''VIEW''\<rparr>
     \<in> set pg_catalog
   \<and> list_tables sim_env fixture_registry ''1699999999002'' fixture_world
     = (Success [JStr ''users'', JStr ''active_users''], fixture_world)"
  by (simp add: list_tables_def handler_defs sim_defs pg_catalog_rows get_prop_def
        pg_list_tables_sql_def)
     (simp add: pg_catalog_def)

section \<open>Describing a table\<close>

lemma pg_column_not_primary_key: "\<not> is_primary_key (pg_column row)"
  by (simp add: is_primary_key_def pg_column_def get_prop_def)

lemma mysql_column_primary_key:
  "is_primary_key (mysql_column row) \<longleftrightarrow> get_prop row ''Key'' = JStr ''PRI''"
  by (simp add: is_primary_key_def mysql_column_def get_prop_def)

lemma sqlite_column_primary_key:
  "is_primary_key (sqlite_column row) \<longleftrightarrow> get_prop row ''pk'' = JNum 1"
  by (simp add: is_primary_key_def sqlite_column_def get_prop_def)

text \<open>The MySQL and SQLite branches on the fixture's table \<^verbatim>\<open>users\<close>: the column objects
  come in the order of the catalogue rows, and exactly \<^verbatim>\<open>id\<close> reads as the primary key.\<close>

lemma get_table_schema_mysql_fixture:
  "get_table_schema sim_env fixture_registry ''1699999999001'' ''users'' fixture_world
     = (Success (map mysql_column mysql_users_columns), fixture_world)
   \<and> map is_primary_key (map mysql_column mysql_users_columns) = [True, False]"
  by (simp add: get_table_schema_def handler_defs sim_defs
        is_primary_key_def mysql_column_def mysql_users_columns_def get_prop_def)

lemma get_table_schema_sqlite_fixture:
  "get_table_schema sim_env fixture_registry ''1699999999003'' ''users'' fixture_world
     = (Success (map sqlite_column sqlite_users_columns), fixture_world)
   \<and> map is_primary_key (map sqlite_column sqlite_users_columns) = [True, False]"
  by (simp add: get_table_schema_def handler_defs sim_defs pg_list_tables_sql_def
        table_columns_sql_def sqlite_list_tables_sql_def
        is_primary_key_def sqlite_column_def sqlite_users_columns_def get_prop_def)

text \<open>
  Claim C3 says that the primary-key column, and only it, is marked on all three
  backends. The PostgreSQL branch of \<open>get_table_schema\<close> builds column objects with
  neither a \<^verbatim>\<open>key\<close> nor a \<^verbatim>\<open>pk\<close> property, so for the fixture's table \<^verbatim>\<open>users\<close>, whose
  primary key is \<^verbatim>\<open>id\<close>, no column reads as the primary key.
\<close>

theorem get_table_schema_postgresql_omits_primary_key:
  "get_table_schema sim_env fixture_registry ''1699999999002'' ''users'' fixture_world
     = (Success (map pg_column pg_users_columns), fixture_world)
   \<and> map (\<lambda>column. get_prop column ''name'') (map pg_column pg_users_columns)
     = [JStr ''id'', JStr ''name'']
   \<and> map is_primary_key (map pg_column pg_users_columns) = [False, False]"
  by (simp add: get_table_schema_def handler_defs sim_defs pg_list_tables_sql_def
        table_columns_sql_def is_primary_key_def pg_column_def pg_users_columns_def get_prop_def)

text \<open>
  Claim C7, as the code has it. The column objects \<open>get_table_schema\<close> returns are built
  one from each row of the driver's reply, in the order of the rows, and every property a
  branch builds is present whatever the row held (a value the row lacks is passed on as
  \<^verbatim>\<open>undefined\<close>):
  \<^item> a MySQL column object is exactly \<^verbatim>\<open>name\<close> (\<^verbatim>\<open>Field\<close>), \<^verbatim>\<open>type\<close> (\<^verbatim>\<open>Type\<close>),
    \<^verbatim>\<open>nullable\<close> (\<^verbatim>\<open>Null === 'YES'\<close>), \<^verbatim>\<open>key\<close> (\<^verbatim>\<open>Key\<close>), \<^verbatim>\<open>default\<close>
    (\<^verbatim>\<open>Default\<close>), \<^verbatim>\<open>extra\<close> (\<^verbatim>\<open>Extra\<close>);
  \<^item> a SQLite column object is exactly \<^verbatim>\<open>name\<close>, \<^verbatim>\<open>type\<close>, \<^verbatim>\<open>nullable\<close>
    (\<^verbatim>\<open>notnull === 0\<close>), \<^verbatim>\<open>default\<close> (\<^verbatim>\<open>dflt_value\<close>), \<^verbatim>\<open>pk\<close> (\<^verbatim>\<open>pk === 1\<close>);
  \<^item> a PostgreSQL column object has \<^verbatim>\<open>name\<close> (\<^verbatim>\<open>column_name\<close>), \<^verbatim>\<open>type\<close>
    (\<^verbatim>\<open>data_type\<close>), \<^verbatim>\<open>nullable\<close> (\<^verbatim>\<open>is_nullable === 'YES'\<close>) and \<^verbatim>\<open>default\<close>
    (\<^verbatim>\<open>column_default\<close>), and no property named \<^verbatim>\<open>isPrimaryKey\<close>, \<^verbatim>\<open>isUnique\<close>,
    \<^verbatim>\<open>hasIndex\<close>, \<^verbatim>\<open>defaultValue\<close> or \<^verbatim>\<open>extra\<close>.
  So no column object of any backend has a property \<^verbatim>\<open>isPrimaryKey\<close>, \<^verbatim>\<open>isUnique\<close>,
  \<^verbatim>\<open>hasIndex\<close> or \<^verbatim>\<open>defaultValue\<close>, and what a branch does not read from the catalogue
  is left out of the object, not set to a default.
\<close>

theorem get_table_schema_fields:
  assumes "reg connectionId = Some e"
    and "get_table_schema E reg connectionId table w = (Success columns, w')"
  shows "(dbType e = Mysql \<longrightarrow>
            (\<exists>rows. mysql_query E (connection e) (''DESCRIBE `'' @ table @ ''`'') w = (Inr rows, w')
               \<and> columns =
                   map (\<lambda>row. [(''name'', get_prop row ''Field''),
                               (''type'', get_prop row ''Type''),
                               (''nullable'', JBool (get_prop row ''Null'' = JStr ''YES'')),
                               (''key'', get_prop row ''Key''),
                               (''default'', get_prop row ''Default''),
                               (''extra'', get_prop row ''Extra'')]) rows))
       \<and> (dbType e = Sqlite \<longrightarrow>
            (\<exists>rows. sqlite_all E (connection e) (''PRAGMA table_info('' @ table @ '')'') w
                       = (Inr rows, w')
               \<and> columns =
                   map (\<lambda>row. [(''name'', get_prop row ''name''),
                               (''type'', get_prop row ''type''),
                               (''nullable'', JBool (get_prop row ''notnull'' = JNum 0)),
                               (''default'', get_prop row ''dflt_value''),
                               (''pk'', JBool (get_prop row ''pk'' = JNum 1))]) rows))
       \<and> (dbType e = Postgresql \<longrightarrow>
            (\<exists>rows. pg_query E (connection e) table_columns_sql [JStr table] w = (Inr rows, w')
               \<and> list_all2
                   (\<lambda>column row.
                      set [''name'', ''type'', ''nullable'', ''default''] \<subseteq> set (map fst column)
                      \<and> get_prop column ''name'' = get_prop row ''column_name''
                      \<and> get_prop column ''type'' = get_prop row ''data_type''
                      \<and> get_prop column ''nullable'' = JBool (get_prop row ''is_nullable'' = JStr ''YES'')
                      \<and> get_prop column ''default'' = get_prop row ''column_default''
                      \<and> set [''isPrimaryKey'', ''isUnique'', ''hasIndex'', ''defaultValue'', ''extra'']
                          \<inter> set (map fst column) = {})
                   columns rows))"
proof (cases "dbType e")
  case Mysql
  then show ?thesis
    using assms
    by (auto simp: get_table_schema_def with_connection_Some catch_response_def await_def
          resolve_def mysql_column_def split: prod.splits sum.splits)
next
  case Postgresql
  have each: "\<And>row. set [''name'', ''type'', ''nullable'', ''default''] \<subseteq> set (map fst (pg_column row))
      \<and> get_prop (pg_column row) ''name'' = get_prop row ''column_name''
      \<and> get_prop (pg_column row) ''type'' = get_prop row ''data_type''
      \<and> get_prop (pg_column row) ''nullable'' = JBool (get_prop row ''is_nullable'' = JStr ''YES'')
      \<and> get_prop (pg_column row) ''default'' = get_prop row ''column_default''
      \<and> set [''isPrimaryKey'', ''isUnique'', ''hasIndex'', ''defaultValue'', ''extra'']
          \<inter> set (map fst (pg_column row)) = {}"
    by (simp add: pg_column_def get_prop_def)
  from Postgresql assms obtain rows
    where reply: "pg_query E (connection e) table_columns_sql [JStr table] w = (Inr rows, w')"
      and built: "columns = map pg_column rows"
    by (auto simp: get_table_schema_def with_connection_Some catch_response_def await_def
          resolve_def split: prod.splits sum.splits)
  let ?shape =
    "\<lambda>column row.
       set [''name'', ''type'', ''nullable'', ''default''] \<subseteq> set (map fst column)
       \<and> get_prop column ''name'' = get_prop row ''column_name''
       \<and> get_prop column ''type'' = get_prop row ''data_type''
       \<and> get_prop column ''nullable'' = JBool (get_prop row ''is_nullable'' = JStr ''YES'')
       \<and> get_prop column ''default'' = get_prop row ''column_default''
       \<and> set [''isPrimaryKey'', ''isUnique'', ''hasIndex'', ''defaultValue'', ''extra'']
           \<inter> set (map fst column) = {}"
  have "list_all2 ?shape (map pg_column rows) rows"
    unfolding list.rel_map list_all2_same using each by blast
  then have "list_all2 ?shape columns rows"
    by (simp only: built)
  with reply
  have "\<exists>rows. pg_query E (connection e) table_columns_sql [JStr table] w = (Inr rows, w')
                \<and> list_all2 ?shape columns rows"
    by (intro exI conjI)
  then show ?thesis
    by (simp only: Postgresql db_type.distinct simp_thms)
next
  case Sqlite
  then show ?thesis
    using assms
    by (auto simp: get_table_schema_def with_connection_Some catch_response_def await_def
          resolve_def sqlite_column_def split: prod.splits sum.splits)
qed

text \<open>The SQLite table \<^verbatim>\<open>users\<close> of the fixture.\<close>

theorem get_table_schema_fields_witness:
  "fixture_registry ''1699999999003'' = Some \<lparr>connection = 2, dbType = Sqlite\<rparr>
   \<and> get_table_schema sim_env fixture_registry ''1699999999003'' ''users'' fixture_world
       = (Success (map sqlite_column sqlite_users_columns), fixture_world)
   \<and> map sqlite_column sqlite_users_columns
       = [[(''name'', JStr ''id''), (''type'', JStr ''INTEGER''), (''nullable'', JBool False),
           (''default'', JNull), (''pk'', JBool True)],
          [(''name'', JStr ''name''), (''type'', JStr ''TEXT''), (''nullable'', JBool True),
           (''default'', JNull), (''pk'', JBool False)]]"
proof -
  have live: "fixture_registry ''1699999999003'' = Some \<lparr>connection = 2, dbType = Sqlite\<rparr>"
    by (simp add: fixture_registry_def)
  have run: "get_table_schema sim_env fixture_registry ''1699999999003'' ''users'' fixture_world
               = (Success (map sqlite_column sqlite_users_columns), fixture_world)"
    by (simp add: get_table_schema_def handler_defs sim_defs pg_list_tables_sql_def
          table_columns_sql_def sqlite_list_tables_sql_def)
  have reply: "sqlite_all sim_env 2 ''PRAGMA table_info(users)'' fixture_world
                 = (Inr sqlite_users_columns, fixture_world)"
    by (simp add: sim_defs pg_list_tables_sql_def table_columns_sql_def
          sqlite_list_tables_sql_def)
  have "map sqlite_column sqlite_users_columns
          = [[(''name'', JStr ''id''), (''type'', JStr ''INTEGER''), (''nullable'', JBool False),
              (''default'', JNull), (''pk'', JBool True)],
             [(''name'', JStr ''name''), (''type'', JStr ''TEXT''), (''nullable'', JBool True),
              (''default'', JNull), (''pk'', JBool False)]]"
    using get_table_schema_fields
            [where reg = fixture_registry and connectionId = "''1699999999003''", OF live run]
      reply
    by (simp add: sqlite_users_columns_def get_prop_def)
  with live run show ?thesis
    by blast
qed

text \<open>
  Claim C7 as stated fails on each backend. For the fixture's table \<^verbatim>\<open>users\<close>: the MySQL
  column objects have \<^verbatim>\<open>key\<close> and \<^verbatim>\<open>default\<close> where the claim has \<^verbatim>\<open>isPrimaryKey\<close>,
  \<^verbatim>\<open>isUnique\<close>, \<^verbatim>\<open>hasIndex\<close> and \<^verbatim>\<open>defaultValue\<close>; the SQLite column objects have
  nothing for unique, index or extra; the PostgreSQL column objects have nothing for
  primary key, unique, index or extra. What is not read is omitted, not defaulted.
\<close>

theorem get_table_schema_shape_counterexample:
  "get_table_schema sim_env fixture_registry ''1699999999001'' ''users'' fixture_world
     = (Success
          [[(''name'', JStr ''id''), (''type'', JStr ''int''), (''nullable'', JBool False),
            (''key'', JStr ''PRI''), (''default'', JNull), (''extra'', JStr ''auto_increment'')],
           [(''name'', JStr ''name''), (''type'', JStr ''varchar(255)''), (''nullable'', JBool True),
            (''key'', JStr []), (''default'', JNull), (''extra'', JStr [])]],
        fixture_world)
   \<and> get_table_schema sim_env fixture_registry ''1699999999003'' ''users'' fixture_world
     = (Success
          [[(''name'', JStr ''id''), (''type'', JStr ''INTEGER''), (''nullable'', JBool False),
            (''default'', JNull), (''pk'', JBool True)],
           [(''name'', JStr ''name''), (''type'', JStr ''TEXT''), (''nullable'', JBool True),
            (''default'', JNull), (''pk'', JBool False)]],
        fixture_world)
   \<and> get_table_schema sim_env fixture_registry ''1699999999002'' ''users'' fixture_world
     = (Success
          [[(''name'', JStr ''id''), (''type'', JStr ''integer''), (''nullable'', JBool False),
            (''default'', JNull)],
           [(''name'', JStr ''name''), (''type'', JStr ''text''), (''nullable'', JBool True),
            (''default'', JNull)]],
        fixture_world)"
  by (simp add: get_table_schema_def handler_defs sim_defs pg_list_tables_sql_def
        table_columns_sql_def sqlite_list_tables_sql_def
        mysql_column_def mysql_users_columns_def sqlite_column_def sqlite_users_columns_def
        pg_column_def pg_users_columns_def get_prop_def)

section \<open>The schema text\<close>

text \<open>The body of each loop throws exactly when one of its catalogue queries is rejected;
  building the text cannot fail.\<close>

lemma mysql_table_body_fails:
  "mysql_table_body E c t s w = (Inl err, w') \<longleftrightarrow>
   mysql_query E c (''DESCRIBE `'' @ to_string t @ ''`'') w = (Inl err, w')"
  by (auto simp: mysql_table_body_def await_def resolve_def split: prod.splits sum.splits)

lemma sqlite_table_body_fails:
  "sqlite_table_body E c t s w = (Inl err, w') \<longleftrightarrow>
   sqlite_all E c (''PRAGMA table_info('' @ to_string t @ '')'') w = (Inl err, w')"
  by (auto simp: sqlite_table_body_def await_def resolve_def split: prod.splits sum.splits)

lemma pg_table_body_fails:
  "pg_table_body E c t s w = (Inl err, w') \<longleftrightarrow>
   pg_query E c columnQuery [t] w = (Inl err, w')
   \<or> (\<exists>columnResult w1. pg_query E c columnQuery [t] w = (Inr columnResult, w1)
         \<and> pg_query E c pkQuery [t] w1 = (Inl err, w'))"
  by (auto simp: pg_table_body_def await_def resolve_def Let_def split: prod.splits sum.splits)

text \<open>
  Claim C8. Let the listing step of \<open>get_database_schema\<close> succeed with the tables
  \<open>before @ t # after\<close>, let the loop get through \<open>before\<close>, and let the describe of \<open>t\<close>
  fail. Then the handler returns a failure (with the error's message, or the fallback text
  when that is empty) and no schema text.
\<close>

theorem get_database_schema_fails_on_table_failure:
  assumes "reg connectionId = Some e"
    and "schema_tables E e w = (Inr (before @ t # after), w1)"
    and "for_of before (schema_table_body E e) [] w1 = (Inr schemaInfo, w2)"
    and "schema_table_body E e t schemaInfo w2 = (Inl err, w3)"
  shows "get_database_schema E reg connectionId w =
           (Failure (if message err \<noteq> [] then message err
                     else ''An error occurred while retrieving the database schema''), w3)"
proof -
  have "for_of (before @ t # after) (schema_table_body E e) [] w1 = (Inl err, w3)"
    using assms(3,4) by (rule for_of_first_failure)
  then show ?thesis
    using assms(1,2) by (simp add: get_database_schema_def with_connection_Some await_def)
qed

text \<open>On the fixture's SQLite file the listing gives \<^verbatim>\<open>users\<close> and \<^verbatim>\<open>orders\<close>, the
  describe of \<^verbatim>\<open>users\<close> succeeds and the one of \<^verbatim>\<open>orders\<close> is rejected.\<close>

theorem get_database_schema_fails_on_table_failure_witness:
  "fixture_registry ''1699999999003'' = Some \<lparr>connection = 2, dbType = Sqlite\<rparr>
   \<and> schema_tables sim_env \<lparr>connection = 2, dbType = Sqlite\<rparr> fixture_world
       = (Inr ([JStr ''users''] @ JStr ''orders'' # []), fixture_world)
   \<and> for_of [JStr ''users''] (schema_table_body sim_env \<lparr>connection = 2, dbType = Sqlite\<rparr>) []
         fixture_world
       = (Inr (table_block (JStr ''users'') (map sqlite_column_line sqlite_users_columns)),
          fixture_world)
   \<and> schema_table_body sim_env \<lparr>connection = 2, dbType = Sqlite\<rparr> (JStr ''orders'')
         (table_block (JStr ''users'') (map sqlite_column_line sqlite_users_columns)) fixture_world
       = (Inl (Error ''SQLITE_BUSY: database is locked''), fixture_world)
   \<and> get_database_schema sim_env fixture_registry ''1699999999003'' fixture_world
       = (Failure ''SQLITE_BUSY: database is locked'', fixture_world)"
proof -
  have live: "fixture_registry ''1699999999003'' = Some \<lparr>connection = 2, dbType = Sqlite\<rparr>"
    by (simp add: fixture_registry_def)
  have listed: "schema_tables sim_env \<lparr>connection = 2, dbType = Sqlite\<rparr> fixture_world
                  = (Inr ([JStr ''users''] @ JStr ''orders'' # []), fixture_world)"
    by (simp add: schema_tables_def handler_defs sim_defs sqlite_master_rows get_prop_def
          pg_list_tables_sql_def sqlite_list_tables_sql_def table_columns_sql_def)
  have first: "for_of [JStr ''users'']
                 (schema_table_body sim_env \<lparr>connection = 2, dbType = Sqlite\<rparr>) [] fixture_world
               = (Inr (table_block (JStr ''users'') (map sqlite_column_line sqlite_users_columns)),
                  fixture_world)"
    by (simp add: schema_table_body_def sqlite_table_body_def handler_defs sim_defs
          pg_list_tables_sql_def sqlite_list_tables_sql_def table_columns_sql_def)
  have second: "schema_table_body sim_env \<lparr>connection = 2, dbType = Sqlite\<rparr> (JStr ''orders'')
                  (table_block (JStr ''users'') (map sqlite_column_line sqlite_users_columns))
                  fixture_world
                = (Inl (Error ''SQLITE_BUSY: database is locked''), fixture_world)"
    by (simp add: schema_table_body_def sqlite_table_body_def handler_defs sim_defs
          pg_list_tables_sql_def sqlite_list_tables_sql_def table_columns_sql_def)
  have "get_database_schema sim_env fixture_registry ''1699999999003'' fixture_world
          = (Failure ''SQLITE_BUSY: database is locked'', fixture_world)"
    using get_database_schema_fails_on_table_failure
            [where reg = fixture_registry and connectionId = "''1699999999003''",
             OF live listed first second]
    by simp
  with live listed first second show ?thesis
    by blast
qed

text \<open>The text of a table whose describe succeeds, here \<^verbatim>\<open>users\<close> of the SQLite file.\<close>

lemma sqlite_users_block:
  "table_block (JStr ''users'') (map sqlite_column_line sqlite_users_columns) =
     ''Table: users'' @ [CHR 0x0A] @ ''Columns:'' @ [CHR 0x0A]
     @ ''  - id (INTEGER) PRIMARY KEY NOT NULL'' @ [CHR 0x0A]
     @ ''  - name (TEXT)'' @ [CHR 0x0A] @ [CHR 0x0A]"
  by (simp add: table_block_def sqlite_column_line_def sqlite_users_columns_def get_prop_def)

end
